theory Spec2Isabelle
  imports Main
begin

section \<open>Python values, exceptions and strings\<close>

text \<open>
  The two servers of the repository, \<^verbatim>\<open>gmail_mcp_server.py\<close> (the primary server) and
  \<^verbatim>\<open>gmail_mcp_server_secondary.py\<close> (the secondary server), are embedded as HOL
  functions. A Python call that can raise returns a value of \<open>exn + 'a\<close>: \<open>Inl e\<close>
  is the exception \<open>e\<close> leaving the call, \<open>Inr v\<close> is the value returned. All the
  exceptions below are subclasses of Python's \<^verbatim>\<open>Exception\<close>; \<open>OSError\<close> stands for
  the class and its subclasses (\<^verbatim>\<open>FileNotFoundError\<close>, \<^verbatim>\<open>PermissionError\<close>).
\<close>

datatype exn =
    HttpError string
  | OSError string
  | KeyError string
  | ValueError string
  | AttributeError string
  | UnicodeDecodeError string
  | BinasciiError string
  | RefreshError string
  | OtherException string

text \<open>\<^verbatim>\<open>str(e)\<close>: the message; a \<^verbatim>\<open>KeyError\<close> prints the repr of its key.\<close>

fun str_exn :: "exn \<Rightarrow> string" where
  "str_exn (HttpError m) = m"
| "str_exn (OSError m) = m"
| "str_exn (KeyError k) = [CHR 0x27] @ k @ [CHR 0x27]"
| "str_exn (ValueError m) = m"
| "str_exn (AttributeError m) = m"
| "str_exn (UnicodeDecodeError m) = m"
| "str_exn (BinasciiError m) = m"
| "str_exn (RefreshError m) = m"
| "str_exn (OtherException m) = m"

text \<open>\<^verbatim>\<open>isinstance(e, OSError)\<close> and \<^verbatim>\<open>isinstance(e, HttpError)\<close>.\<close>

fun is_OSError :: "exn \<Rightarrow> bool" where
  "is_OSError (OSError m) = True"
| "is_OSError e = False"

fun is_HttpError :: "exn \<Rightarrow> bool" where
  "is_HttpError (HttpError m) = True"
| "is_HttpError e = False"

text \<open>Sequencing of calls that can raise: the first exception ends the block.\<close>

definition bind_res :: "exn + 'a \<Rightarrow> ('a \<Rightarrow> exn + 'b) \<Rightarrow> exn + 'b" where
  "bind_res m f = (case m of Inl e \<Rightarrow> Inl e | Inr x \<Rightarrow> f x)"

text \<open>\<^verbatim>\<open>d[key]\<close> on a field that the provider may leave out: \<^verbatim>\<open>KeyError\<close> when absent.\<close>

definition getitem :: "string \<Rightarrow> 'a option \<Rightarrow> exn + 'a" where
  "getitem key field = (case field of None \<Rightarrow> Inl (KeyError key) | Some v \<Rightarrow> Inr v)"

text \<open>\<^verbatim>\<open>d.get(key, default)\<close>.\<close>

definition get_default :: "'a option \<Rightarrow> 'a \<Rightarrow> 'a" where
  "get_default field d = (case field of None \<Rightarrow> d | Some v \<Rightarrow> v)"

text \<open>
  \<^verbatim>\<open>s.replace(old, new)\<close>: every non-overlapping occurrence of \<open>old\<close>, found from the
  left, is replaced; an empty \<open>old\<close> matches before every character and at the end.
\<close>

fun py_replace :: "string \<Rightarrow> string \<Rightarrow> string \<Rightarrow> string" where
  "py_replace old new [] = (if old = [] then new else [])"
| "py_replace old new (c # cs) =
     (if old = [] then new @ c # py_replace old new cs
      else if take (length old) (c # cs) = old
        then new @ py_replace old new (drop (length old - 1) cs)
      else c # py_replace old new cs)"

text \<open>\<^verbatim>\<open>sep.join(xs)\<close>.\<close>

fun join :: "string \<Rightarrow> string list \<Rightarrow> string" where
  "join sep [] = []"
| "join sep [x] = x"
| "join sep (x # y # ys) = x @ sep @ join sep (y # ys)"

text \<open>\<^verbatim>\<open>s.split(c)\<close> for a separator of one character.\<close>

fun split_on :: "char \<Rightarrow> string \<Rightarrow> string list" where
  "split_on c [] = [[]]"
| "split_on c (x # xs) =
     (if x = c then [] # split_on c xs
      else (case split_on c xs of [] \<Rightarrow> [[x]] | w # ws \<Rightarrow> (x # w) # ws))"

text \<open>\<^verbatim>\<open>os.path.basename(p)\<close> on a POSIX path: what follows the last slash.\<close>

definition basename :: "string \<Rightarrow> string" where
  "basename p = rev (takeWhile (\<lambda>c. c \<noteq> CHR ''/'') (rev p))"

text \<open>The values the secondary server's tools return: JSON-like Python objects.\<close>

datatype jv =
    JNone
  | JBool bool
  | JInt int
  | JStr string
  | JList "jv list"
  | JDict "(string \<times> jv) list"

type_synonym dict = "(string \<times> jv) list"

section \<open>MIME messages\<close>

text \<open>
  The objects of Python's \<^verbatim>\<open>email.mime\<close> package, with the headers the code sets on
  them in the order it sets them (the headers that the constructors add themselves,
  \<^verbatim>\<open>Content-Type\<close> and \<^verbatim>\<open>MIME-Version\<close>, are represented by the constructor and its
  subtype). \<open>MIMEText text subtype headers\<close>, \<open>MIMEBase maintype subtype payload headers\<close>,
  \<open>MIMEMultipart subtype headers parts\<close>.
\<close>

type_synonym bytes = "nat list"

datatype mime =
    MIMEText string string "(string \<times> string) list"
  | MIMEBase string string bytes "(string \<times> string) list"
  | MIMEMultipart string "(string \<times> string) list" "mime list"

text \<open>\<^verbatim>\<open>message[k] = v\<close> appends a header; \<^verbatim>\<open>message.attach(p)\<close> appends a part.\<close>

fun set_header :: "string \<Rightarrow> string \<Rightarrow> mime \<Rightarrow> mime" where
  "set_header k v (MIMEText t s hs) = MIMEText t s (hs @ [(k, v)])"
| "set_header k v (MIMEBase a b p hs) = MIMEBase a b p (hs @ [(k, v)])"
| "set_header k v (MIMEMultipart s hs ps) = MIMEMultipart s (hs @ [(k, v)]) ps"

fun mime_headers :: "mime \<Rightarrow> (string \<times> string) list" where
  "mime_headers (MIMEText t s hs) = hs"
| "mime_headers (MIMEBase a b p hs) = hs"
| "mime_headers (MIMEMultipart s hs ps) = hs"

text \<open>\<^verbatim>\<open>message.get_all(name)\<close>: the values of the headers of that name, in order.\<close>

definition get_all :: "string \<Rightarrow> mime \<Rightarrow> string list" where
  "get_all k m = map snd (filter (\<lambda>h. fst h = k) (mime_headers m))"


text \<open>
  \<^verbatim>\<open>message.attach(p)\<close> is only called on multipart containers; the loops below keep
  the container's list of parts and append to it.
\<close>

section \<open>The environment: library functions, file system, provider\<close>

text \<open>
  Library functions the code calls but does not define are parameters:
  \<^verbatim>\<open>base64.urlsafe_b64decode\<close> (raises \<^verbatim>\<open>binascii.Error\<close> on bad padding),
  \<^verbatim>\<open>base64.urlsafe_b64encode(...).decode()\<close>, \<^verbatim>\<open>bytes.decode('utf-8')\<close> (raises
  \<^verbatim>\<open>UnicodeDecodeError\<close>), \<^verbatim>\<open>bytes.decode('utf-8', errors='ignore')\<close> (never raises),
  \<^verbatim>\<open>message.as_bytes()\<close> and \<^verbatim>\<open>mimetypes.guess_type(path)[0]\<close>.
\<close>

record lib =
  urlsafe_b64decode :: "string \<Rightarrow> exn + bytes"
  urlsafe_b64encode :: "bytes \<Rightarrow> string"
  decode_utf8 :: "bytes \<Rightarrow> exn + string"
  decode_utf8_ignore :: "bytes \<Rightarrow> string"
  as_bytes :: "mime \<Rightarrow> bytes"
  guess_type :: "string \<Rightarrow> string option"

text \<open>
  The local file system: \<^verbatim>\<open>os.path.isfile(p)\<close>; \<^verbatim>\<open>open(p, 'rb')\<close>, which raises
  or gives a file object whose \<^verbatim>\<open>read()\<close> raises or gives the content; and
  \<^verbatim>\<open>open(p, 'wb')\<close> followed by \<^verbatim>\<open>write(data)\<close>.
\<close>

record fs =
  isfile :: "string \<Rightarrow> bool"
  open_rb :: "string \<Rightarrow> exn + (exn + bytes)"
  write_wb :: "string \<Rightarrow> bytes \<Rightarrow> exn + unit"

text \<open>
  The provider's resources, as the parsed JSON the client library returns. A key the
  provider may leave out is an \<open>option\<close>.
\<close>

datatype part_body = PartBody (body_data: "string option")

datatype part =
  Part (mimeType: "string option") (part_headers: "(string \<times> string) list option")
       (part_body: "part_body option") (parts: "part list option")

record message =
  m_id :: "string option"
  m_threadId :: "string option"
  m_labelIds :: "string list option"
  m_snippet :: "string option"
  m_payload :: "part option"
  m_sizeEstimate :: "int option"
  m_internalDate :: "string option"

record draft =
  d_id :: "string option"
  d_message :: "message option"

record list_response =
  r_messages :: "message list option"

record thread =
  t_messages :: "message list option"

record profile =
  emailAddress :: "string option"
  messagesTotal :: "int option"
  threadsTotal :: "int option"
  historyId :: "string option"

record label =
  l_id :: "string option"
  l_name :: "string option"
  l_type :: "string option"
  l_messageListVisibility :: "string option"
  l_labelListVisibility :: "string option"

record labels_response =
  r_labels :: "label list option"

record filter_obj =
  f_id :: "string option"
  f_criteria :: "jv option"
  f_action :: "jv option"

record attachment =
  a_data :: "string option"

text \<open>The body of \<^verbatim>\<open>messages().send\<close>: \<^verbatim>\<open>{'raw': ...}\<close>, with \<^verbatim>\<open>'threadId'\<close> for a reply.\<close>

record send_body =
  raw :: string
  body_threadId :: "string option"

text \<open>
  The provider, reached through \<^verbatim>\<open>service.users()\<close>: each \<^verbatim>\<open>....execute()\<close> raises
  (\<^verbatim>\<open>HttpError\<close> or a transport error) or returns a resource.
  \<open>messages_get id format metadataHeaders\<close>, \<open>messages_list q maxResults includeSpamTrash\<close>,
  \<open>messages_modify id body\<close>, \<open>attachments_get messageId id\<close>; \<open>labels_create\<close>,
  \<open>messages_batchModify\<close> and \<open>filters_create\<close> take the request body.
\<close>

record gmail =
  getProfile :: "exn + profile"
  messages_send :: "send_body \<Rightarrow> exn + message"
  drafts_create :: "string \<Rightarrow> exn + draft"
  messages_get :: "string \<Rightarrow> string \<Rightarrow> string list \<Rightarrow> exn + message"
  messages_list :: "string \<Rightarrow> int \<Rightarrow> bool option \<Rightarrow> exn + list_response"
  threads_get :: "string \<Rightarrow> exn + thread"
  labels_list :: "exn + labels_response"
  labels_create :: "dict \<Rightarrow> exn + label"
  messages_modify :: "string \<Rightarrow> dict \<Rightarrow> exn + message"
  messages_delete :: "string \<Rightarrow> exn + unit"
  messages_trash :: "string \<Rightarrow> exn + message"
  messages_batchModify :: "dict \<Rightarrow> exn + unit"
  filters_create :: "dict \<Rightarrow> exn + filter_obj"
  attachments_get :: "string \<Rightarrow> string \<Rightarrow> exn + attachment"

section \<open>The secondary server: \<^verbatim>\<open>gmail_mcp_server_secondary.py\<close>\<close>

text \<open>
  \<^verbatim>\<open>self.service\<close> is \<^verbatim>\<open>None\<close> until \<^verbatim>\<open>authenticate\<close> has run; \<^verbatim>\<open>self.service.users()\<close>
  raises \<^verbatim>\<open>AttributeError\<close> on \<^verbatim>\<open>None\<close>.
\<close>

definition the_service :: "gmail option \<Rightarrow> exn + gmail" where
  "the_service service =
     (case service of
        None \<Rightarrow>
          Inl (AttributeError
                 ([CHR 0x27] @ ''NoneType'' @ [CHR 0x27] @ '' object has no attribute ''
                  @ [CHR 0x27] @ ''users'' @ [CHR 0x27]))
      | Some g \<Rightarrow> Inr g)"

text \<open>
  Every tool of the secondary server is \<^verbatim>\<open>try: ... except Exception as e:
  return {'success': False, 'error': str(e)}\<close>.
\<close>

definition failure :: "exn \<Rightarrow> dict" where
  "failure e = [(''success'', JBool False), (''error'', JStr (str_exn e))]"

definition except_Exception :: "exn + dict \<Rightarrow> exn + dict" where
  "except_Exception r = (case r of Inl e \<Rightarrow> Inr (failure e) | Inr d \<Rightarrow> Inr d)"

text \<open>
  \<^verbatim>\<open>{h['name']: h['value'] for h in headers}\<close>: a later header of the same name
  replaces the value of an earlier one. \<^verbatim>\<open>headers.get(k, default)\<close>.
\<close>

fun dict_update :: "string \<Rightarrow> 'v \<Rightarrow> (string \<times> 'v) list \<Rightarrow> (string \<times> 'v) list" where
  "dict_update k v [] = [(k, v)]"
| "dict_update k v (kv # d) =
     (if fst kv = k then (k, v) # d else kv # dict_update k v d)"

definition header_dict :: "(string \<times> string) list \<Rightarrow> (string \<times> string) list" where
  "header_dict hs = foldl (\<lambda>d h. dict_update (fst h) (snd h) d) [] hs"

definition dict_get :: "(string \<times> 'v) list \<Rightarrow> string \<Rightarrow> 'v \<Rightarrow> 'v" where
  "dict_get d k dflt = (case map_of d k of None \<Rightarrow> dflt | Some v \<Rightarrow> v)"

definition jv_of_headers :: "(string \<times> string) list \<Rightarrow> jv" where
  "jv_of_headers d = JDict (map (\<lambda>h. (fst h, JStr (snd h))) d)"

definition jv_opt_str :: "string option \<Rightarrow> jv" where
  "jv_opt_str x = (case x of None \<Rightarrow> JNone | Some s \<Rightarrow> JStr s)"

subsection \<open>\<^verbatim>\<open>_extract_body\<close> (lines 758-774)\<close>

text \<open>\<^verbatim>\<open>base64.urlsafe_b64decode(data).decode('utf-8')\<close>.\<close>

definition decode_strict :: "lib \<Rightarrow> string \<Rightarrow> exn + string" where
  "decode_strict lib d = bind_res (urlsafe_b64decode lib d) (decode_utf8 lib)"

text \<open>\<^verbatim>\<open>part['body']['data']\<close>.\<close>

definition part_data :: "part \<Rightarrow> exn + string" where
  "part_data p =
     bind_res (getitem ''body'' (part_body p)) (\<lambda>b. getitem ''data'' (body_data b))"

text \<open>
  The loop over \<^verbatim>\<open>payload['parts']\<close>, with the current value of \<^verbatim>\<open>body\<close>: a
  \<^verbatim>\<open>text/plain\<close> part sets the body and leaves the loop, a \<^verbatim>\<open>text/html\<close> part sets the
  body and goes on, any other part is passed over.
\<close>

fun extract_body_loop :: "lib \<Rightarrow> part list \<Rightarrow> string \<Rightarrow> exn + string" where
  "extract_body_loop lib [] body = Inr body"
| "extract_body_loop lib (p # ps) body =
     bind_res (getitem ''mimeType'' (mimeType p)) (\<lambda>mt.
       if mt = ''text/plain'' then
         bind_res (part_data p) (\<lambda>d. decode_strict lib d)
       else if mt = ''text/html'' then
         bind_res (part_data p) (\<lambda>d.
         bind_res (decode_strict lib d) (\<lambda>body'. extract_body_loop lib ps body'))
       else extract_body_loop lib ps body)"

definition extract_body :: "lib \<Rightarrow> part \<Rightarrow> exn + string" where
  "extract_body lib payload =
     (case parts payload of
        Some ps \<Rightarrow> extract_body_loop lib ps []
      | None \<Rightarrow>
          bind_res (getitem ''body'' (part_body payload)) (\<lambda>b.
            (case body_data b of
               None \<Rightarrow> Inr []
             | Some d \<Rightarrow> if d = [] then Inr [] else decode_strict lib d)))"


subsection \<open>\<^verbatim>\<open>send_email\<close> (lines 133-200) and \<^verbatim>\<open>create_draft\<close> (lines 202-246)\<close>

text \<open>
  \<^verbatim>\<open>main_type, sub_type = mime_type.split('/')\<close> when \<^verbatim>\<open>guess_type\<close> gives a type,
  \<^verbatim>\<open>'application', 'octet-stream'\<close> otherwise. Unpacking raises \<^verbatim>\<open>ValueError\<close> unless
  the split gives two strings.
\<close>

definition main_sub_type :: "lib \<Rightarrow> string \<Rightarrow> exn + (string \<times> string)" where
  "main_sub_type lib file_path =
     (case guess_type lib file_path of
        None \<Rightarrow> Inr (''application'', ''octet-stream'')
      | Some mt \<Rightarrow>
          if mt = [] then Inr (''application'', ''octet-stream'')
          else (case split_on (CHR ''/'') mt of
                  [a, b] \<Rightarrow> Inr (a, b)
                | [a] \<Rightarrow> Inl (ValueError ''not enough values to unpack (expected 2, got 1)'')
                | _ \<Rightarrow> Inl (ValueError ''too many values to unpack (expected 2)'')))"

text \<open>
  The attachment part built for one file: \<^verbatim>\<open>encode_base64\<close> sets the transfer
  encoding, then the disposition header carries the base name.
\<close>

definition attachment_part :: "string \<Rightarrow> string \<Rightarrow> bytes \<Rightarrow> string \<Rightarrow> mime" where
  "attachment_part main_type sub_type content file_path =
     MIMEBase main_type sub_type content
       [(''Content-Transfer-Encoding'', ''base64''),
        (''Content-Disposition'',
           ''attachment; filename='' @ [CHR 0x22] @ basename file_path @ [CHR 0x22])]"

text \<open>
  The loop over \<^verbatim>\<open>attachments\<close> (lines 163-179), on the parts attached so far: a path
  that is not a regular file is passed over without a word; for a regular file,
  \<^verbatim>\<open>open\<close>, the type guess and \<^verbatim>\<open>read\<close> run unguarded.
\<close>

fun attach_files :: "lib \<Rightarrow> fs \<Rightarrow> string list \<Rightarrow> mime list \<Rightarrow> exn + mime list" where
  "attach_files lib fs [] ps = Inr ps"
| "attach_files lib fs (file_path # rest) ps =
     (if isfile fs file_path then
        bind_res (open_rb fs file_path) (\<lambda>f.
        bind_res (main_sub_type lib file_path) (\<lambda>ms.
        bind_res f (\<lambda>content.
          attach_files lib fs rest
            (ps @ [attachment_part (fst ms) (snd ms) content file_path]))))
      else attach_files lib fs rest ps)"

text \<open>
  The message of \<^verbatim>\<open>send_email\<close> (lines 159-186). An empty list of attachments and an
  empty \<^verbatim>\<open>cc\<close> or \<^verbatim>\<open>bcc\<close> are false in Python, like \<^verbatim>\<open>None\<close>.
\<close>

definition truthy_list :: "'a list option \<Rightarrow> bool" where
  "truthy_list x = (case x of None \<Rightarrow> False | Some xs \<Rightarrow> xs \<noteq> [])"

definition set_optional :: "string \<Rightarrow> string option \<Rightarrow> mime \<Rightarrow> mime" where
  "set_optional k v m = (if truthy_list v then set_header k (the v) m else m)"

definition text_subtype :: "bool \<Rightarrow> string" where
  "text_subtype html = (if html then ''html'' else ''plain'')"

definition secondary_send_message ::
  "lib \<Rightarrow> fs \<Rightarrow> string \<Rightarrow> string \<Rightarrow> string \<Rightarrow> string option \<Rightarrow> string option \<Rightarrow> bool
     \<Rightarrow> string list option \<Rightarrow> exn + mime" where
  "secondary_send_message lib fs to subject body cc bcc html attachments =
     bind_res
       (if truthy_list attachments then
          bind_res (attach_files lib fs (the attachments) [MIMEText body (text_subtype html) []])
            (\<lambda>ps. Inr (MIMEMultipart ''mixed'' [] ps))
        else Inr (MIMEText body (text_subtype html) []))
       (\<lambda>message.
          Inr (set_optional ''bcc'' bcc (set_optional ''cc'' cc
                 (set_header ''subject'' subject (set_header ''to'' to message)))))"

definition raw_message :: "lib \<Rightarrow> mime \<Rightarrow> string" where
  "raw_message lib message = urlsafe_b64encode lib (as_bytes lib message)"

definition secondary_send_email_try ::
  "lib \<Rightarrow> fs \<Rightarrow> gmail option \<Rightarrow> string \<Rightarrow> string \<Rightarrow> string \<Rightarrow> string option \<Rightarrow> string option
     \<Rightarrow> bool \<Rightarrow> string list option \<Rightarrow> exn + dict" where
  "secondary_send_email_try lib fs service to subject body cc bcc html attachments =
     bind_res (secondary_send_message lib fs to subject body cc bcc html attachments) (\<lambda>message.
     bind_res (the_service service) (\<lambda>g.
     bind_res (messages_send g \<lparr>raw = raw_message lib message, body_threadId = None\<rparr>) (\<lambda>sent_message.
     bind_res (getitem ''id'' (m_id sent_message)) (\<lambda>i.
       Inr [(''success'', JBool True), (''messageId'', JStr i),
            (''threadId'', jv_opt_str (m_threadId sent_message))]))))"

definition secondary_send_email ::
  "lib \<Rightarrow> fs \<Rightarrow> gmail option \<Rightarrow> string \<Rightarrow> string \<Rightarrow> string \<Rightarrow> string option \<Rightarrow> string option
     \<Rightarrow> bool \<Rightarrow> string list option \<Rightarrow> exn + dict" where
  "secondary_send_email lib fs service to subject body cc bcc html attachments =
     except_Exception
       (secondary_send_email_try lib fs service to subject body cc bcc html attachments)"



subsection \<open>\<^verbatim>\<open>search_emails\<close> (lines 248-303)\<close>

definition jv_labels :: "string list option \<Rightarrow> jv" where
  "jv_labels ls = JList (map JStr (get_default ls []))"





subsection \<open>\<^verbatim>\<open>read_email\<close> (lines 305-349) and \<^verbatim>\<open>get_thread\<close> (lines 351-393)\<close>

definition secondary_read_email_try ::
  "lib \<Rightarrow> gmail option \<Rightarrow> string \<Rightarrow> string \<Rightarrow> exn + dict" where
  "secondary_read_email_try lib service message_id format =
     bind_res (the_service service) (\<lambda>g.
     bind_res (messages_get g message_id format []) (\<lambda>message.
     bind_res
       (case m_payload message of
          Some payload \<Rightarrow> if format = ''full'' then extract_body lib payload else Inr []
        | None \<Rightarrow> Inr []) (\<lambda>body_content.
     (let headers =
            (case m_payload message of
               Some payload \<Rightarrow>
                 (case part_headers payload of Some hs \<Rightarrow> header_dict hs | None \<Rightarrow> [])
             | None \<Rightarrow> []) in
      bind_res (getitem ''id'' (m_id message)) (\<lambda>i.
      bind_res (getitem ''threadId'' (m_threadId message)) (\<lambda>t.
        Inr [(''success'', JBool True), (''id'', JStr i), (''threadId'', JStr t),
             (''labelIds'', jv_labels (m_labelIds message)),
             (''snippet'', JStr (get_default (m_snippet message) [])),
             (''headers'', jv_of_headers headers),
             (''body'', JStr body_content),
             (''sizeEstimate'', JInt (get_default (m_sizeEstimate message) 0)),
             (''internalDate'', JStr (get_default (m_internalDate message) []))]))))))"

definition secondary_read_email ::
  "lib \<Rightarrow> gmail option \<Rightarrow> string \<Rightarrow> string \<Rightarrow> exn + dict" where
  "secondary_read_email lib service message_id format =
     except_Exception (secondary_read_email_try lib service message_id format)"





subsection \<open>\<^verbatim>\<open>reply_to_email\<close> (lines 395-443)\<close>

text \<open>The reply built from the original's headers (lines 425-429).\<close>

definition reply_subject :: "string \<Rightarrow> string" where
  "reply_subject subject = ''Re: '' @ py_replace ''Re: '' [] subject"

definition reply_message :: "(string \<times> string) list \<Rightarrow> string \<Rightarrow> bool \<Rightarrow> mime" where
  "reply_message headers body html =
     set_header ''References'' (dict_get headers ''Message-ID'' [])
       (set_header ''In-Reply-To'' (dict_get headers ''Message-ID'' [])
          (set_header ''subject'' (reply_subject (dict_get headers ''Subject'' []))
             (set_header ''to'' (dict_get headers ''From'' [])
                (MIMEText body (text_subtype html) []))))"

definition reply_to_email_try ::
  "lib \<Rightarrow> gmail option \<Rightarrow> string \<Rightarrow> string \<Rightarrow> bool \<Rightarrow> exn + dict" where
  "reply_to_email_try lib service message_id body html =
     bind_res (the_service service) (\<lambda>g.
     bind_res (messages_get g message_id ''metadata''
                 [''From'', ''To'', ''Subject'', ''Message-ID'']) (\<lambda>original.
     bind_res (getitem ''payload'' (m_payload original)) (\<lambda>payload.
     (let headers = header_dict (get_default (part_headers payload) []);
          message = reply_message headers body html in
      bind_res (getitem ''threadId'' (m_threadId original)) (\<lambda>t.
      bind_res (messages_send g \<lparr>raw = raw_message lib message, body_threadId = Some t\<rparr>)
        (\<lambda>sent_message.
      bind_res (getitem ''id'' (m_id sent_message)) (\<lambda>i.
      bind_res (getitem ''threadId'' (m_threadId sent_message)) (\<lambda>st.
        Inr [(''success'', JBool True), (''messageId'', JStr i),
             (''threadId'', JStr st)]))))))))"



subsection \<open>The label, message, filter, attachment and profile tools (lines 445-756)\<close>



























section \<open>The primary server: \<^verbatim>\<open>gmail_mcp_server.py\<close>\<close>

text \<open>
  The primary server logs through \<^verbatim>\<open>logger\<close>; a function that logs returns the records
  it wrote beside its result.
\<close>

datatype log_record = LogWarning string | LogError string

subsection \<open>\<^verbatim>\<open>GmailService.get_user_email\<close> (lines 90-92)\<close>

definition get_user_email :: "gmail \<Rightarrow> exn + string" where
  "get_user_email g =
     bind_res (getProfile g) (\<lambda>profile. Inr (get_default (emailAddress profile) ''me''))"

subsection \<open>\<^verbatim>\<open>GmailService._compose\<close> (lines 94-145)\<close>

text \<open>
  The \<^verbatim>\<open>headers\<close> dictionary (lines 100-107), in insertion order. \<^verbatim>\<open>Cc\<close> and \<^verbatim>\<open>Bcc\<close>
  are set when the list is given, not empty, and joins to a string that is not empty.
\<close>

definition joined_header :: "string \<Rightarrow> string list option \<Rightarrow> (string \<times> string) list" where
  "joined_header k xs =
     (if truthy_list xs \<and> join '', '' (the xs) \<noteq> [] then [(k, join '', '' (the xs))] else [])"

definition compose_headers ::
  "string \<Rightarrow> string list \<Rightarrow> string \<Rightarrow> string list option \<Rightarrow> string list option
     \<Rightarrow> (string \<times> string) list" where
  "compose_headers sender to subject cc bcc =
     [(''From'', sender), (''To'', if to \<noteq> [] then join '', '' to else []),
      (''Subject'', subject)]
     @ joined_header ''Cc'' cc @ joined_header ''Bcc'' bcc"

text \<open>\<^verbatim>\<open>for k, v in headers.items(): message[k] = v\<close>.\<close>

definition set_headers :: "(string \<times> string) list \<Rightarrow> mime \<Rightarrow> mime" where
  "set_headers headers message = foldl (\<lambda>m h. set_header (fst h) (snd h) m) message headers"

text \<open>
  The body part: the alternative container when \<^verbatim>\<open>mime_type == "multipart/alternative"
  and html_body\<close>, a single text part otherwise.
\<close>

definition is_alternative :: "string \<Rightarrow> string option \<Rightarrow> bool" where
  "is_alternative mime_type html_body =
     (mime_type = ''multipart/alternative'' \<and> truthy_list html_body)"

definition body_subtype :: "string \<Rightarrow> string" where
  "body_subtype mime_type = (if mime_type = ''text/html'' then ''html'' else ''plain'')"

definition body_part :: "string \<Rightarrow> string \<Rightarrow> string option \<Rightarrow> mime" where
  "body_part body mime_type html_body =
     (if is_alternative mime_type html_body then
        MIMEMultipart ''alternative'' []
          [MIMEText body ''plain'' [], MIMEText (the html_body) ''html'' []]
      else MIMEText body (body_subtype mime_type) [])"

text \<open>
  The loop over \<^verbatim>\<open>attachments\<close> (lines 120-131), on the parts attached so far and the
  records logged so far: an \<^verbatim>\<open>OSError\<close> from \<^verbatim>\<open>open\<close> or \<^verbatim>\<open>read\<close> is logged as a
  warning and the loop goes on; any other exception leaves \<^verbatim>\<open>_compose\<close>.
\<close>

fun compose_attachments ::
  "fs \<Rightarrow> string list \<Rightarrow> mime list \<Rightarrow> log_record list \<Rightarrow> (exn + mime list) \<times> log_record list" where
  "compose_attachments fs [] ps log = (Inr ps, log)"
| "compose_attachments fs (file_path # rest) ps log =
     (case bind_res (open_rb fs file_path) (\<lambda>fh. fh) of
        Inr content \<Rightarrow>
          compose_attachments fs rest
            (ps @ [attachment_part ''application'' ''octet-stream'' content file_path]) log
      | Inl exc \<Rightarrow>
          if is_OSError exc then
            compose_attachments fs rest ps
              (log @ [LogWarning (''Attachment error '' @ file_path @ '': '' @ str_exn exc)])
          else (Inl exc, log))"

definition compose ::
  "fs \<Rightarrow> string \<Rightarrow> string list \<Rightarrow> string \<Rightarrow> string \<Rightarrow> string \<Rightarrow> string list option
     \<Rightarrow> string list option \<Rightarrow> string option \<Rightarrow> string list option
     \<Rightarrow> (exn + mime) \<times> log_record list" where
  "compose fs sender to subject body mime_type cc bcc html_body attachments =
     (let headers = compose_headers sender to subject cc bcc in
      if truthy_list attachments then
        (case compose_attachments fs (the attachments)
                [body_part body mime_type html_body] [] of
           (Inl exc, log) \<Rightarrow> (Inl exc, log)
         | (Inr ps, log) \<Rightarrow> (Inr (set_headers headers (MIMEMultipart ''mixed'' [] ps)), log))
      else if is_alternative mime_type html_body then
        (Inr (set_headers headers (body_part body mime_type html_body)), [])
      else (Inr (set_headers headers (MIMEText body (body_subtype mime_type) [])), []))"

subsection \<open>\<^verbatim>\<open>GmailService.send_email\<close> and \<^verbatim>\<open>create_draft\<close> (lines 147-191)\<close>

text \<open>
  The statement that both methods start with (lines 153-163 and 176-186):
  \<^verbatim>\<open>mime_message = self._compose(sender=self.get_user_email(), to=to, ...)\<close>.
\<close>

definition composed_message ::
  "fs \<Rightarrow> gmail \<Rightarrow> string list \<Rightarrow> string \<Rightarrow> string \<Rightarrow> string list option
     \<Rightarrow> string list option \<Rightarrow> string \<Rightarrow> string list option \<Rightarrow> string option
     \<Rightarrow> (exn + mime) \<times> log_record list" where
  "composed_message fs g to subject body cc bcc mime_type attachments html_body =
     (case get_user_email g of
        Inl exc \<Rightarrow> (Inl exc, [])
      | Inr sender \<Rightarrow> compose fs sender to subject body mime_type cc bcc html_body attachments)"

definition GmailService_send_email ::
  "lib \<Rightarrow> fs \<Rightarrow> gmail \<Rightarrow> string list \<Rightarrow> string \<Rightarrow> string \<Rightarrow> string list option
     \<Rightarrow> string list option \<Rightarrow> string \<Rightarrow> string list option \<Rightarrow> string option
     \<Rightarrow> (exn + string option) \<times> log_record list" where
  "GmailService_send_email lib fs g to subject body cc bcc mime_type attachments html_body =
     (case composed_message fs g to subject body cc bcc mime_type attachments html_body of
        (Inl exc, log) \<Rightarrow> (Inl exc, log)
      | (Inr mime_message, log) \<Rightarrow>
          (bind_res
             (messages_send g \<lparr>raw = raw_message lib mime_message, body_threadId = None\<rparr>)
             (\<lambda>result. Inr (m_id result)), log))"


subsection \<open>\<^verbatim>\<open>GmailService.read_email\<close> (lines 193-212)\<close>

text \<open>\<^verbatim>\<open>next((h["value"] for h in headers if h["name"] == name), "")\<close>.\<close>

definition first_header :: "string \<Rightarrow> (string \<times> string) list \<Rightarrow> string" where
  "first_header k headers =
     (case find (\<lambda>h. fst h = k) headers of None \<Rightarrow> [] | Some h \<Rightarrow> snd h)"

text \<open>
  The leaf branch of \<^verbatim>\<open>walk\<close> (lines 206-209): \<^verbatim>\<open>part.get("body", {}).get("data")\<close>,
  decoded and appended when it is there and not empty.
\<close>

definition walk_leaf :: "lib \<Rightarrow> part_body option \<Rightarrow> string list \<Rightarrow> exn + string list" where
  "walk_leaf lib b body_parts =
     (case (case b of None \<Rightarrow> None | Some pb \<Rightarrow> body_data pb) of
        None \<Rightarrow> Inr body_parts
      | Some d \<Rightarrow>
          if d = [] then Inr body_parts
          else bind_res (urlsafe_b64decode lib d)
                 (\<lambda>bs. Inr (body_parts @ [decode_utf8_ignore lib bs])))"

text \<open>
  \<^verbatim>\<open>walk\<close> (lines 201-209), on the list \<^verbatim>\<open>body_parts\<close>: a part with a non-empty
  \<^verbatim>\<open>parts\<close> list is walked part by part, any other part is a leaf.
\<close>

fun walk :: "lib \<Rightarrow> part \<Rightarrow> string list \<Rightarrow> exn + string list"
  and walk_parts :: "lib \<Rightarrow> part list \<Rightarrow> string list \<Rightarrow> exn + string list" where
  "walk lib (Part mt hs b (Some (p # ps))) body_parts = walk_parts lib (p # ps) body_parts"
| "walk lib (Part mt hs b (Some [])) body_parts = walk_leaf lib b body_parts"
| "walk lib (Part mt hs b None) body_parts = walk_leaf lib b body_parts"
| "walk_parts lib [] body_parts = Inr body_parts"
| "walk_parts lib (p # ps) body_parts =
     bind_res (walk lib p body_parts) (\<lambda>body_parts'. walk_parts lib ps body_parts')"

definition empty_part :: part where
  "empty_part = Part None None None None"

definition GmailService_read_email :: "lib \<Rightarrow> gmail \<Rightarrow> string \<Rightarrow> exn + string" where
  "GmailService_read_email lib g message_id =
     bind_res (messages_get g message_id ''full'' []) (\<lambda>message.
     (let payload = get_default (m_payload message) empty_part;
          headers = get_default (part_headers payload) [];
          subject = first_header ''Subject'' headers;
          sender = first_header ''From'' headers;
          snippet = get_default (m_snippet message) [] in
      bind_res (walk lib payload []) (\<lambda>body_parts.
      (let body = (if body_parts \<noteq> [] then join [CHR 0x0A] body_parts else snippet) in
       Inr (''Subject: '' @ subject @ [CHR 0x0A] @ ''From: '' @ sender
              @ [CHR 0x0A, CHR 0x0A] @ body)))))"

subsection \<open>\<^verbatim>\<open>GmailService.search_emails\<close> (lines 214-226)\<close>




subsection \<open>The tool wrappers (lines 284-350)\<close>

text \<open>
  Every wrapper is \<^verbatim>\<open>try: ... except HttpError as e: logger.error(...); raise\<close>: an
  \<^verbatim>\<open>HttpError\<close> is logged and raised again, any other exception passes through.
\<close>

definition reraise_HttpError ::
  "string \<Rightarrow> (exn + 'a) \<times> log_record list \<Rightarrow> (exn + 'a) \<times> log_record list" where
  "reraise_HttpError tool r =
     (case fst r of
        Inl e \<Rightarrow>
          if is_HttpError e
          then (Inl e, snd r @ [LogError (tool @ '' failed: '' @ str_exn e)])
          else (Inl e, snd r)
      | Inr v \<Rightarrow> r)"

text \<open>\<^verbatim>\<open>f"{x}"\<close> for a string or \<^verbatim>\<open>None\<close>.\<close>

definition format_opt :: "string option \<Rightarrow> string" where
  "format_opt x = (case x of None \<Rightarrow> ''None'' | Some s \<Rightarrow> s)"

definition send_email ::
  "lib \<Rightarrow> fs \<Rightarrow> gmail \<Rightarrow> string list \<Rightarrow> string \<Rightarrow> string \<Rightarrow> string list option
     \<Rightarrow> string list option \<Rightarrow> string \<Rightarrow> string list option \<Rightarrow> string option
     \<Rightarrow> (exn + string) \<times> log_record list" where
  "send_email lib fs g to subject body cc bcc mime_type attachments html_body =
     reraise_HttpError ''send_email''
       (case GmailService_send_email lib fs g to subject body cc bcc mime_type attachments
               html_body of
          (r, log) \<Rightarrow>
            (bind_res r (\<lambda>msg_id.
               Inr (''Email sent successfully. Message ID: '' @ format_opt msg_id)), log))"


definition read_email :: "lib \<Rightarrow> gmail \<Rightarrow> string \<Rightarrow> (exn + string) \<times> log_record list" where
  "read_email lib g message_id =
     reraise_HttpError ''read_email'' (GmailService_read_email lib g message_id, [])"



section \<open>Authentication\<close>

text \<open>
  A credential as the code reads it: \<^verbatim>\<open>creds.valid\<close>, \<^verbatim>\<open>creds.expired\<close> and
  \<^verbatim>\<open>creds.refresh_token\<close>. The environment of an authentication run: whether the token
  file exists and what loading it gives, what \<^verbatim>\<open>creds.refresh(Request())\<close> does to a
  credential (it raises or leaves the refreshed credential), whether the client-secret
  file exists and what \<^verbatim>\<open>InstalledAppFlow.from_client_secrets_file\<close> gives, what the
  local-server flow and the pasted-code exchange give, and what writing the token file
  does.
\<close>

record creds =
  valid :: bool
  expired :: bool
  refresh_token :: "string option"

record auth_env =
  token_exists :: bool
  load_token :: "exn + creds"
  refresh :: "creds \<Rightarrow> exn + creds"
  secrets_exist :: bool
  from_client_secrets_file :: "exn + unit"
  run_local_server :: "exn + creds"
  manual_exchange :: "exn + creds"
  write_token :: "creds \<Rightarrow> exn + unit"

text \<open>
  What a run does, in order. \<open>AwaitingInteractiveGrant\<close> marks the entry into the
  branch that asks the user for a new grant (the spec's state of that name).
\<close>

datatype auth_event =
    LoadWarning string
  | RefreshAttempted
  | RefreshWarning string
  | AwaitingInteractiveGrant
  | LocalServerRun
  | ManualExchange
  | TokenWritten creds
  | WriteWarning string

text \<open>\<^verbatim>\<open>not creds or not creds.valid\<close> and \<^verbatim>\<open>creds and creds.expired and creds.refresh_token\<close>.\<close>

definition needs_login :: "creds option \<Rightarrow> bool" where
  "needs_login c = (case c of None \<Rightarrow> True | Some cr \<Rightarrow> \<not> valid cr)"

definition refreshable :: "creds option \<Rightarrow> bool" where
  "refreshable c =
     (case c of None \<Rightarrow> False | Some cr \<Rightarrow> expired cr \<and> truthy_list (refresh_token cr))"

subsection \<open>Primary server: \<^verbatim>\<open>GmailService._get_service\<close> (lines 62-88)\<close>

text \<open>Lines 63-70: a token file that does not load is logged and treated as absent.\<close>

definition primary_load :: "auth_env \<Rightarrow> creds option \<times> auth_event list" where
  "primary_load env =
     (if token_exists env then
        (case load_token env of
           Inl exc \<Rightarrow> (None, [LoadWarning (''Failed to load token: '' @ str_exn exc)])
         | Inr c \<Rightarrow> (Some c, []))
      else (None, []))"

text \<open>Lines 72-77: a refresh that raises is logged and the credential is dropped.\<close>

definition primary_refresh :: "auth_env \<Rightarrow> creds option \<Rightarrow> creds option \<times> auth_event list" where
  "primary_refresh env c =
     (if refreshable c then
        (case refresh env (the c) of
           Inl exc \<Rightarrow>
             (None, [RefreshAttempted, RefreshWarning (''Token refresh failed: '' @ str_exn exc)])
         | Inr c' \<Rightarrow> (Some c', [RefreshAttempted]))
      else (c, []))"

text \<open>Lines 78-81: the interactive flow.\<close>

definition primary_flow :: "auth_env \<Rightarrow> (exn + creds) \<times> auth_event list" where
  "primary_flow env =
     (case from_client_secrets_file env of
        Inl exc \<Rightarrow> (Inl exc, [AwaitingInteractiveGrant])
      | Inr flow \<Rightarrow> (run_local_server env, [AwaitingInteractiveGrant, LocalServerRun]))"

text \<open>Lines 82-86: an \<^verbatim>\<open>OSError\<close> while writing the token is logged, nothing more.\<close>

definition primary_save :: "auth_env \<Rightarrow> creds \<Rightarrow> (exn + creds) \<times> auth_event list" where
  "primary_save env c =
     (case write_token env c of
        Inl exc \<Rightarrow>
          if is_OSError exc
          then (Inr c, [WriteWarning (''Could not write token file: '' @ str_exn exc)])
          else (Inl exc, [])
      | Inr u \<Rightarrow> (Inr c, [TokenWritten c]))"

definition get_service :: "auth_env \<Rightarrow> (exn + creds) \<times> auth_event list" where
  "get_service env =
     (case primary_load env of (c, log) \<Rightarrow>
        if needs_login c then
          (case primary_refresh env c of (c1, log1) \<Rightarrow>
             (case (if needs_login c1 then primary_flow env else (Inr (the c1), [])) of
                (Inl exc, log2) \<Rightarrow> (Inl exc, log @ log1 @ log2)
              | (Inr c2, log2) \<Rightarrow>
                  (case primary_save env c2 of
                     (r, log3) \<Rightarrow> (r, log @ log1 @ log2 @ log3))))
        else (Inr (the c), log))"

subsection \<open>Secondary server: \<^verbatim>\<open>GmailMCPServer.authenticate\<close> (lines 51-128)\<close>

text \<open>Lines 56-59: loading the token file is not guarded.\<close>

definition secondary_load :: "auth_env \<Rightarrow> exn + creds option" where
  "secondary_load env =
     (if token_exists env then bind_res (load_token env) (\<lambda>c. Inr (Some c)) else Inr None)"

text \<open>Lines 123-125: neither is writing it.\<close>

definition secondary_save ::
  "auth_env \<Rightarrow> creds \<Rightarrow> auth_event list \<Rightarrow> (exn + creds) \<times> auth_event list" where
  "secondary_save env c log =
     (case write_token env c of
        Inl exc \<Rightarrow> (Inl exc, log)
      | Inr u \<Rightarrow> (Inr c, log @ [TokenWritten c]))"

text \<open>
  \<^verbatim>\<open>authenticate(manual_auth)\<close>: the refresh (line 65) is not guarded; the local-server
  flow is, and falls back to \<^verbatim>\<open>self.authenticate(manual_auth=True)\<close>.
\<close>

function authenticate :: "auth_env \<Rightarrow> bool \<Rightarrow> (exn + creds) \<times> auth_event list" where
  "authenticate env manual_auth =
     (case secondary_load env of
        Inl exc \<Rightarrow> (Inl exc, [])
      | Inr c \<Rightarrow>
          if needs_login c then
            if refreshable c then
              (case refresh env (the c) of
                 Inl exc \<Rightarrow> (Inl exc, [RefreshAttempted])
               | Inr c' \<Rightarrow> secondary_save env c' [RefreshAttempted])
            else if \<not> secrets_exist env then
              (Inl (OSError ''Missing credentials.json. Please download OAuth credentials from Google Cloud Console.''),
               [AwaitingInteractiveGrant])
            else
              (case from_client_secrets_file env of
                 Inl exc \<Rightarrow> (Inl exc, [AwaitingInteractiveGrant])
               | Inr flow \<Rightarrow>
                   if manual_auth then
                     (case manual_exchange env of
                        Inl exc \<Rightarrow> (Inl exc, [AwaitingInteractiveGrant, ManualExchange])
                      | Inr c' \<Rightarrow>
                          secondary_save env c' [AwaitingInteractiveGrant, ManualExchange])
                   else
                     (case run_local_server env of
                        Inl exc \<Rightarrow>
                          (case authenticate env True of
                             (r, log) \<Rightarrow> (r, [AwaitingInteractiveGrant, LocalServerRun] @ log))
                      | Inr c' \<Rightarrow>
                          secondary_save env c' [AwaitingInteractiveGrant, LocalServerRun]))
          else (Inr (the c), []))"
  by pat_completeness auto
termination
  by (relation "measure (\<lambda>(env, manual_auth). if manual_auth then 0 else 1)") auto

declare authenticate.simps [simp del]


section \<open>Example environments\<close>

text \<open>
  Concrete environments for the examples below. The library is given at the strings the
  examples use: \<^verbatim>\<open>aGVsbG8=\<close> is the URL-safe base64 of \<^verbatim>\<open>hello\<close> and
  \<^verbatim>\<open>PHA-aGVsbG88L3A-\<close> that of \<^verbatim>\<open><p>hello</p>\<close>; the serialisation of a message
  is left empty, since no example reads it.
\<close>

definition example_b64decode :: "string \<Rightarrow> exn + bytes" where
  "example_b64decode d =
     (if d = ''aGVsbG8='' then Inr [104, 101, 108, 108, 111]
      else if d = ''PHA-aGVsbG88L3A-''
        then Inr [60, 112, 62, 104, 101, 108, 108, 111, 60, 47, 112, 62]
      else Inl (BinasciiError ''Incorrect padding''))"

definition example_decode_utf8 :: "bytes \<Rightarrow> exn + string" where
  "example_decode_utf8 bs =
     (if bs = [104, 101, 108, 108, 111] then Inr ''hello''
      else if bs = [60, 112, 62, 104, 101, 108, 108, 111, 60, 47, 112, 62]
        then Inr ''<p>hello</p>''
      else Inl (UnicodeDecodeError ''invalid start byte''))"

definition example_lib :: lib where
  "example_lib =
     \<lparr>urlsafe_b64decode = example_b64decode,
      urlsafe_b64encode = (\<lambda>bs. []),
      decode_utf8 = example_decode_utf8,
      decode_utf8_ignore = (\<lambda>bs. case example_decode_utf8 bs of Inl e \<Rightarrow> [] | Inr s \<Rightarrow> s),
      as_bytes = (\<lambda>m. []),
      guess_type = (\<lambda>p. None)\<rparr>"

text \<open>
  A file system with one readable file, and one regular file that the process may not
  open.
\<close>

definition example_fs :: fs where
  "example_fs =
     \<lparr>isfile = (\<lambda>p. p = ''/home/me/notes.txt'' \<or> p = ''/home/me/locked.txt''),
      open_rb = (\<lambda>p.
        if p = ''/home/me/notes.txt'' then Inr (Inr [104, 105])
        else if p = ''/home/me/locked.txt'' then Inl (OSError ''[Errno 13] Permission denied'')
        else Inl (OSError ''[Errno 2] No such file or directory'')),
      write_wb = (\<lambda>p data. Inr ())\<rparr>"

definition empty_message :: message where
  "empty_message =
     \<lparr>m_id = None, m_threadId = None, m_labelIds = None, m_snippet = None,
      m_payload = None, m_sizeEstimate = None, m_internalDate = None\<rparr>"


text \<open>
  A provider for the account \<^verbatim>\<open>me@example.com\<close> that accepts every send and answers
  with the given message id and thread id, returns the given message for every
  \<^verbatim>\<open>messages().get\<close>, and lists the given messages for every query; it has no labels,
  filters or attachments.
\<close>

definition example_gmail :: "string \<Rightarrow> string \<Rightarrow> message \<Rightarrow> message list \<Rightarrow> gmail" where
  "example_gmail i t msg listed =
     \<lparr>getProfile = Inr \<lparr>emailAddress = Some ''me@example.com'', messagesTotal = Some 2,
                         threadsTotal = Some 1, historyId = Some ''7''\<rparr>,
      messages_send = (\<lambda>b. Inr (empty_message\<lparr>m_id := Some i, m_threadId := Some t\<rparr>)),
      drafts_create = (\<lambda>r. Inr \<lparr>d_id = Some i,
                                  d_message = Some (empty_message\<lparr>m_id := Some t\<rparr>)\<rparr>),
      messages_get = (\<lambda>i f hs. Inr msg),
      messages_list = (\<lambda>q n s. Inr \<lparr>r_messages = Some listed\<rparr>),
      threads_get = (\<lambda>i. Inr \<lparr>t_messages = Some [msg]\<rparr>),
      labels_list = Inr \<lparr>r_labels = Some []\<rparr>,
      labels_create = (\<lambda>b. Inl (HttpError ''409 Label name exists or conflicts'')),
      messages_modify = (\<lambda>i b. Inr msg),
      messages_delete = (\<lambda>i. Inr ()),
      messages_trash = (\<lambda>i. Inr msg),
      messages_batchModify = (\<lambda>b. Inr ()),
      filters_create = (\<lambda>b. Inl (HttpError ''400 Invalid filter'')),
      attachments_get = (\<lambda>m i. Inl (HttpError ''404 Not Found''))\<rparr>"


text \<open>
  A stored credential that has expired and holds a refresh token, with a provider that
  rejects the refresh; the interactive flow would succeed.
\<close>

definition fresh_creds :: creds where
  "fresh_creds = \<lparr>valid = True, expired = False, refresh_token = Some ''1//new''\<rparr>"

definition expired_creds :: creds where
  "expired_creds = \<lparr>valid = False, expired = True, refresh_token = Some ''1//old''\<rparr>"

definition expired_env :: auth_env where
  "expired_env =
     \<lparr>token_exists = True,
      load_token = Inr expired_creds,
      refresh = (\<lambda>c. Inl (RefreshError ''invalid_grant: Token has been expired or revoked.'')),
      secrets_exist = True,
      from_client_secrets_file = Inr (),
      run_local_server = Inr fresh_creds,
      manual_exchange = Inr fresh_creds,
      write_token = (\<lambda>c. Inr ())\<rparr>"




section \<open>The result shapes of the tool adapter\<close>





section \<open>Describing the decoded body\<close>






text \<open>
  Example messages. A container part carries a body without data. \<open>flat_message\<close>
  is a \<^verbatim>\<open>multipart/alternative\<close> message; \<open>nested_message\<close> is the usual shape of a
  message with an attachment, \<^verbatim>\<open>multipart/mixed\<close> around \<^verbatim>\<open>multipart/alternative\<close>
  and a PDF; \<open>notes_message\<close> has a text file attached instead, whose part carries
  an attachment id and no data.
\<close>

definition plain_part :: part where
  "plain_part = Part (Some ''text/plain'') None (Some (PartBody (Some ''aGVsbG8=''))) None"

definition html_part :: part where
  "html_part =
     Part (Some ''text/html'') None (Some (PartBody (Some ''PHA-aGVsbG88L3A-''))) None"

definition alternative_part :: part where
  "alternative_part =
     Part (Some ''multipart/alternative'') None (Some (PartBody None))
       (Some [plain_part, html_part])"


definition notes_part :: part where
  "notes_part = Part (Some ''text/plain'') None (Some (PartBody None)) None"

definition example_headers :: "(string \<times> string) list" where
  "example_headers = [(''From'', ''a@example.com''), (''Subject'', ''Hi'')]"

definition message_with :: "part \<Rightarrow> message" where
  "message_with payload =
     empty_message\<lparr>m_id := Some ''m1'', m_threadId := Some ''t1'',
                    m_snippet := Some ''hello'', m_payload := Some payload\<rparr>"



definition notes_payload :: part where
  "notes_payload =
     Part (Some ''multipart/mixed'') (Some example_headers) (Some (PartBody None))
       (Some [alternative_part, notes_part])"

section \<open>Basic facts\<close>

lemma set_headers_multipart:
  "set_headers hs (MIMEMultipart s hs0 ps) = MIMEMultipart s (hs0 @ hs) ps"
  unfolding set_headers_def by (induction hs arbitrary: hs0) auto

lemma set_headers_text:
  "set_headers hs (MIMEText t s hs0) = MIMEText t s (hs0 @ hs)"
  unfolding set_headers_def by (induction hs arbitrary: hs0) auto































subsection \<open>Facts about the paths the claims turn on\<close>

text \<open>
  A refresh that raises: the secondary server's \<^verbatim>\<open>authenticate\<close> ends with the
  exception, for either value of \<^verbatim>\<open>manual_auth\<close>; the primary server's
  \<^verbatim>\<open>_get_service\<close> enters the interactive grant. An attachment that cannot be opened:
  the primary server's loop logs a warning and goes on with the parts it has; the
  secondary server's loop ends with the exception. A reply is sent with the thread id of
  the original. A subject in which \<^verbatim>\<open>Re: \<close> does not occur gets the prefix prepended,
  and a subject that is the prefix followed by such a text is kept.
\<close>

lemma authenticate_refresh_failure:
  assumes "token_exists env" and "load_token env = Inr c" and "\<not> valid c" and "expired c"
    and "truthy_list (refresh_token c)" and "refresh env c = Inl e"
  shows "authenticate env manual_auth = (Inl e, [RefreshAttempted])"
  using assms
  by (simp add: authenticate.simps secondary_load_def bind_res_def needs_login_def
      refreshable_def)

lemma get_service_refresh_failure:
  assumes "token_exists env" and "load_token env = Inr c" and "\<not> valid c" and "expired c"
    and "truthy_list (refresh_token c)" and "refresh env c = Inl e"
  shows "AwaitingInteractiveGrant \<in> set (snd (get_service env))"
  using assms
  by (auto simp: get_service_def primary_load_def primary_refresh_def primary_flow_def
      primary_save_def needs_login_def refreshable_def split: sum.splits prod.splits)

lemma compose_attachments_skips_unreadable:
  assumes "open_rb fs file_path = Inl (OSError m)"
  shows "compose_attachments fs (file_path # rest) ps log =
     compose_attachments fs rest ps
       (log @ [LogWarning (''Attachment error '' @ file_path @ '': '' @ m)])"
  using assms by (simp add: bind_res_def)

lemma attach_files_aborts_on_unreadable:
  assumes "isfile fs file_path" and "open_rb fs file_path = Inl e"
  shows "attach_files lib fs (file_path # rest) ps = Inl e"
  using assms by (simp add: bind_res_def)

lemma reply_keeps_thread:
  assumes "messages_get g message_id ''metadata'' [''From'', ''To'', ''Subject'', ''Message-ID'']
             = Inr original"
    and "m_payload original = Some payload" and "m_threadId original = Some t"
  shows "reply_to_email_try lib (Some g) message_id body html =
     bind_res
       (messages_send g
          \<lparr>raw = raw_message lib
                   (reply_message (header_dict (get_default (part_headers payload) [])) body html),
           body_threadId = Some t\<rparr>)
       (\<lambda>sent_message.
          bind_res (getitem ''id'' (m_id sent_message)) (\<lambda>i.
          bind_res (getitem ''threadId'' (m_threadId sent_message)) (\<lambda>st.
            Inr [(''success'', JBool True), (''messageId'', JStr i), (''threadId'', JStr st)])))"
  using assms
  by (simp add: reply_to_email_try_def the_service_def bind_res_def getitem_def Let_def)

lemma py_replace_absent:
  assumes "old \<noteq> []" and "\<forall>i. take (length old) (drop i s) \<noteq> old"
  shows "py_replace old new s = s"
  using assms
proof (induction s)
  case Nil
  then show ?case by simp
next
  case (Cons c cs)
  have h0: "take (length old) (c # cs) \<noteq> old"
    using Cons.prems(2) [rule_format, of 0] by simp
  have "\<forall>i. take (length old) (drop i cs) \<noteq> old"
  proof
    fix i show "take (length old) (drop i cs) \<noteq> old"
      using Cons.prems(2) [rule_format, of "Suc i"] by simp
  qed
  then have "py_replace old new cs = cs"
    using Cons.IH Cons.prems(1) by simp
  then show ?case
    using h0 Cons.prems(1) by simp
qed

lemma reply_subject_plain:
  assumes "\<forall>i. take 4 (drop i s) \<noteq> ''Re: ''"
  shows "reply_subject s = ''Re: '' @ s"
    and "reply_subject (''Re: '' @ s) = ''Re: '' @ s"
proof -
  have "\<forall>i. take (length ''Re: '') (drop i s) \<noteq> ''Re: ''"
    using assms by (simp add: eval_nat_numeral)
  then have r: "py_replace ''Re: '' [] s = s"
    by (rule py_replace_absent [rotated]) simp
  show "reply_subject s = ''Re: '' @ s"
    using r by (simp add: reply_subject_def)
  have "py_replace ''Re: '' [] (''Re: '' @ s) = py_replace ''Re: '' [] s"
    by simp
  then show "reply_subject (''Re: '' @ s) = ''Re: '' @ s"
    using r by (simp add: reply_subject_def)
qed

section \<open>Replies\<close>

text \<open>
  C2. \<^verbatim>\<open>reply_to_email\<close> builds the subject as \<^verbatim>\<open>"Re: " + subject.replace('Re: ', '')\<close>.
  The replacement deletes every occurrence of \<^verbatim>\<open>Re: \<close>, not a leading one only: the
  reply to a message whose subject is \<^verbatim>\<open>Hello Re: world\<close> gets the subject
  \<^verbatim>\<open>Re: Hello world\<close>, which is not the original subject with the prefix prepended;
  and the subject \<^verbatim>\<open>RRe: e: x\<close>, which does not start with the prefix, gives
  \<^verbatim>\<open>Re: Re: x\<close>, which carries it twice.
\<close>

theorem reply_subject_deletes_inner_prefix:
  "get_all ''subject''
     (reply_message
        (header_dict [(''From'', ''a@example.com''), (''Subject'', ''Hello Re: world'')])
        ''ok'' False) = [''Re: Hello world'']
   \<and> reply_subject ''RRe: e: x'' = ''Re: Re: x''"
  by (simp add: reply_message_def reply_subject_def header_dict_def dict_get_def get_all_def
      text_subtype_def)

section \<open>Authentication after a failed refresh\<close>

text \<open>
  C4. With a stored credential that is expired and holds a refresh token, and a refresh
  that the provider rejects, the secondary server's \<^verbatim>\<open>authenticate\<close> ends with the
  refresh error and never enters the interactive grant, while the primary server's
  \<^verbatim>\<open>_get_service\<close> logs the failure, enters the interactive grant and stores the new
  credential.
\<close>

theorem authenticate_aborts_on_refresh_failure:
  "authenticate expired_env False =
     (Inl (RefreshError ''invalid_grant: Token has been expired or revoked.''),
      [RefreshAttempted])
   \<and> get_service expired_env =
     (Inr fresh_creds,
      [RefreshAttempted,
       RefreshWarning ''Token refresh failed: invalid_grant: Token has been expired or revoked.'',
       AwaitingInteractiveGrant, LocalServerRun, TokenWritten fresh_creds])"
  by (simp add: authenticate.simps get_service_def expired_env_def expired_creds_def
      fresh_creds_def secondary_load_def bind_res_def needs_login_def refreshable_def
      truthy_list_def primary_load_def primary_refresh_def primary_flow_def primary_save_def)

section \<open>Composition of plain and HTML bodies\<close>

text \<open>
  C7 (as amended). When \<^verbatim>\<open>_compose\<close> is called with
  \<^verbatim>\<open>mime_type == "multipart/alternative"\<close>, an HTML body that is not empty and no
  attachments, the message is one \<^verbatim>\<open>multipart/alternative\<close> container that carries the
  headers and exactly two parts: the plain-text body first, the HTML body second.
\<close>

theorem compose_alternative:
  assumes "mime_type = ''multipart/alternative''" and "html_body = Some h" and "h \<noteq> []"
    and "\<not> truthy_list attachments"
  shows "compose fs sender to subject body mime_type cc bcc html_body attachments =
     (Inr (MIMEMultipart ''alternative'' (compose_headers sender to subject cc bcc)
            [MIMEText body ''plain'' [], MIMEText h ''html'' []]), [])"
  using assms
  by (simp add: compose_def is_alternative_def body_part_def truthy_list_def
      set_headers_multipart)

theorem compose_alternative_witness:
  "compose example_fs ''me@example.com'' [''a@example.com''] ''Hi'' ''hello''
       ''multipart/alternative'' None None (Some ''<p>hello</p>'') None =
     (Inr (MIMEMultipart ''alternative''
            [(''From'', ''me@example.com''), (''To'', ''a@example.com''), (''Subject'', ''Hi'')]
            [MIMEText ''hello'' ''plain'' [], MIMEText ''<p>hello</p>'' ''html'' []]), [])"
  using compose_alternative [of "''multipart/alternative''" "Some ''<p>hello</p>''"
      "''<p>hello</p>''" None example_fs "''me@example.com''" "[''a@example.com'']" "''Hi''"
      "''hello''" None None]
  by (simp add: truthy_list_def compose_headers_def joined_header_def)

text \<open>
  The claim as stated fails: with both bodies given and the default
  \<^verbatim>\<open>mime_type="text/plain"\<close>, the message is a single \<^verbatim>\<open>text/plain\<close> part and the HTML
  body is left out.
\<close>

theorem compose_alternative_needs_mime_type:
  "compose example_fs ''me@example.com'' [''a@example.com''] ''Hi'' ''hello''
       ''text/plain'' None None (Some ''<p>hello</p>'') None =
     (Inr (MIMEText ''hello'' ''plain''
            [(''From'', ''me@example.com''), (''To'', ''a@example.com''), (''Subject'', ''Hi'')]),
      [])"
  by (simp add: compose_def is_alternative_def body_subtype_def truthy_list_def
      set_headers_text compose_headers_def joined_header_def)


section \<open>The sender of an outbound message\<close>



section \<open>Attachments that cannot be read\<close>

text \<open>
  C8. A regular file that the process may not open, given as an attachment: the
  secondary server's \<^verbatim>\<open>send_email\<close> opens it outside any handler of its own, the
  \<^verbatim>\<open>PermissionError\<close> reaches the tool's \<^verbatim>\<open>except Exception\<close>, and the send is given
  up with a failure result. The primary server, on the same input, logs a warning,
  leaves the attachment out and sends the message.
\<close>

theorem unreadable_attachment_aborts_secondary_send:
  "secondary_send_email example_lib example_fs
       (Some (example_gmail ''m1'' ''t1'' empty_message []))
       ''a@example.com'' ''Hi'' ''hello'' None None False (Some [''/home/me/locked.txt''])
     = Inr [(''success'', JBool False), (''error'', JStr ''[Errno 13] Permission denied'')]
   \<and> send_email example_lib example_fs (example_gmail ''m1'' ''t1'' empty_message [])
       [''a@example.com''] ''Hi'' ''hello'' None None ''text/plain''
       (Some [''/home/me/locked.txt'']) None
     = (Inr ''Email sent successfully. Message ID: m1'',
        [LogWarning ''Attachment error /home/me/locked.txt: [Errno 13] Permission denied''])"
  by (simp add: secondary_send_email_def secondary_send_email_try_def secondary_send_message_def
      except_Exception_def failure_def bind_res_def truthy_list_def example_fs_def
      send_email_def GmailService_send_email_def composed_message_def compose_def
      get_user_email_def example_gmail_def get_default_def reraise_HttpError_def
      format_opt_def empty_message_def)


section \<open>The results of the tool adapter\<close>



section \<open>What a send returns\<close>





section \<open>The decoded body\<close>




section \<open>Parts without data\<close>

text \<open>
  C6. A message with a text file attached: the attachment's part is of type
  \<^verbatim>\<open>text/plain\<close> and carries an attachment id instead of data. The secondary server's
  \<^verbatim>\<open>_extract_body\<close> reads \<^verbatim>\<open>part['body']['data']\<close> of that part, the \<^verbatim>\<open>KeyError\<close>
  reaches the tool's handler, and the whole read fails. The primary server reads the same
  message: it uses \<^verbatim>\<open>.get("data")\<close> and passes such a part over.
\<close>

theorem missing_data_fails_secondary_read:
  "secondary_read_email example_lib
       (Some (example_gmail ''m1'' ''t1'' (message_with notes_payload) [])) ''m1'' ''full''
     = Inr [(''success'', JBool False), (''error'', JStr ([CHR 0x27] @ ''data'' @ [CHR 0x27]))]
   \<and> fst (read_email example_lib (example_gmail ''m1'' ''t1'' (message_with notes_payload) [])
            ''m1'')
     = Inr (''Subject: Hi'' @ [CHR 0x0A] @ ''From: a@example.com'' @ [CHR 0x0A, CHR 0x0A]
            @ ''hello'' @ [CHR 0x0A] @ ''<p>hello</p>'')"
  by (simp add: secondary_read_email_def secondary_read_email_try_def except_Exception_def
      failure_def the_service_def extract_body_def notes_payload_def alternative_part_def
      notes_part_def part_data_def
      plain_part_def html_part_def getitem_def bind_res_def GmailService_read_email_def
      example_gmail_def message_with_def empty_message_def get_default_def
      example_headers_def first_header_def walk_leaf_def example_lib_def
      example_b64decode_def example_decode_utf8_def read_email_def reraise_HttpError_def)



section \<open>The number of search results\<close>




end
